theory Spec2Isabelle
  imports Main
begin

section \<open>Exceptions\<close>

text \<open>
  The exceptions that the modelled methods can raise. A method that may raise returns
  \<open>error + 'a\<close>, with \<open>Inl\<close> for the exception.
\<close>

datatype error = ValueError | KeyError | OverflowError | TypeError | AttributeError

section \<open>Strings\<close>

text \<open>
  The \<open>str\<close> and \<open>int\<close> operations of the interpreter that \<open>Course._time_overlaps\<close>
  calls, for strings of code points below 256 (one \<open>char\<close> each): \<open>str.split(sep)\<close>
  with a one-character separator, \<open>str.strip()\<close>, and \<open>int(s)\<close> in base ten.

  \<open>str.strip()\<close> removes the characters for which \<open>str.isspace\<close> holds: the code
  points 9 to 13, 28 to 31, 32, 133 and 160. \<open>int(s)\<close> skips a narrower set at both ends
  (9 to 13, 32, 133 and 160, but not 28 to 31), then takes an optional sign and decimal
  digits, a single underscore being allowed between two digits. It raises \<open>ValueError\<close>
  on every other string, and also when the literal has more digits than the
  interpreter's limit, whose default is 4300 (underscores are not counted, leading
  zeros are).
\<close>

definition isspace :: "char \<Rightarrow> bool" where
  "isspace c = (of_char c \<in> set [9, 10, 11, 12, 13, 28, 29, 30, 31, 32, 133, 160 :: nat])"

definition str_strip :: "string \<Rightarrow> string" where
  "str_strip s = rev (dropWhile isspace (rev (dropWhile isspace s)))"

fun str_split :: "char \<Rightarrow> string \<Rightarrow> string list" where
  "str_split sep [] = [[]]"
| "str_split sep (c # cs) =
     (if c = sep then [] # str_split sep cs
      else (case str_split sep cs of [] \<Rightarrow> [[c]] | w # ws \<Rightarrow> (c # w) # ws))"

definition isdigit :: "char \<Rightarrow> bool" where
  "isdigit c = (48 \<le> (of_char c :: nat) \<and> (of_char c :: nat) \<le> 57)"

definition digit_value :: "char \<Rightarrow> nat" where
  "digit_value c = of_char c - 48"

fun int_digits :: "nat \<Rightarrow> string \<Rightarrow> nat option" where
  "int_digits acc [] = Some acc"
| "int_digits acc [c] = (if isdigit c then Some (acc * 10 + digit_value c) else None)"
| "int_digits acc (c # d # cs) =
     (if isdigit c then int_digits (acc * 10 + digit_value c) (d # cs)
      else if c = CHR ''_'' \<and> isdigit d then int_digits (acc * 10 + digit_value d) cs
      else None)"

definition int_isspace :: "char \<Rightarrow> bool" where
  "int_isspace c = (of_char c \<in> set [9, 10, 11, 12, 13, 32, 133, 160 :: nat])"

definition int_strip :: "string \<Rightarrow> string" where
  "int_strip s = rev (dropWhile int_isspace (rev (dropWhile int_isspace s)))"

definition max_str_digits :: nat where
  "max_str_digits = 4300"

definition int_literal :: "string \<Rightarrow> nat option" where
  "int_literal s =
     (case s of
        [] \<Rightarrow> None
      | c # cs \<Rightarrow>
          if isdigit c \<and> length (filter isdigit (c # cs)) \<le> max_str_digits
          then int_digits (digit_value c) cs
          else None)"

definition py_int :: "string \<Rightarrow> error + int" where
  "py_int s =
     (case int_strip s of
        [] \<Rightarrow> Inl ValueError
      | c # cs \<Rightarrow>
          (if c = CHR ''-''
           then (case int_literal cs of None \<Rightarrow> Inl ValueError | Some n \<Rightarrow> Inr (- int n))
           else if c = CHR ''+''
           then (case int_literal cs of None \<Rightarrow> Inl ValueError | Some n \<Rightarrow> Inr (int n))
           else (case int_literal (c # cs) of None \<Rightarrow> Inl ValueError | Some n \<Rightarrow> Inr (int n))))"

section \<open>Course (app/models/course.py)\<close>

text \<open>
  Timestamps are the strings that \<open>datetime.now().isoformat()\<close> returns; every method
  that reads the clock takes the string as its argument \<open>now\<close>. Python integers are
  unbounded, so \<open>credits\<close>, \<open>capacity\<close> and \<open>enrolled\<close> are of type \<open>int\<close>.
\<close>

record Schedule =
  days :: "string list"
  time :: string
  room :: string

record Course =
  course_id :: string
  name :: string
  description :: string
  credits :: int
  instructor :: string
  capacity :: int
  enrolled :: int
  prerequisites :: "string list"
  schedule :: "Schedule option"
  is_active :: bool
  created_at :: string
  updated_at :: string

text \<open>
  \<open>Course.__init__\<close>. The argument \<open>prerequisites\<close> defaults to \<open>None\<close>, and
  \<open>prerequisites or []\<close> turns both \<open>None\<close> and the empty list into the empty list.
  Nothing is checked and nothing is raised.
\<close>

definition Course_init ::
    "string \<Rightarrow> string \<Rightarrow> string \<Rightarrow> int \<Rightarrow> string \<Rightarrow> int \<Rightarrow> string list option \<Rightarrow> string \<Rightarrow> Course"
  where
  "Course_init cid nm descr cr instr cap prereqs now =
     \<lparr> course_id = cid, name = nm, description = descr, credits = cr, instructor = instr,
       capacity = cap, enrolled = 0,
       prerequisites = (case prereqs of None \<Rightarrow> [] | Some ps \<Rightarrow> ps),
       schedule = None, is_active = True, created_at = now, updated_at = now \<rparr>"

definition set_schedule :: "string list \<Rightarrow> string \<Rightarrow> string \<Rightarrow> string \<Rightarrow> Course \<Rightarrow> Course" where
  "set_schedule ds t r now c =
     c\<lparr> schedule := Some \<lparr> days = ds, time = t, room = r \<rparr>, updated_at := now \<rparr>"

definition has_schedule :: "Course \<Rightarrow> bool" where
  "has_schedule c = (schedule c \<noteq> None)"

definition get_available_seats :: "Course \<Rightarrow> int" where
  "get_available_seats c = max 0 (capacity c - enrolled c)"

definition is_full :: "Course \<Rightarrow> bool" where
  "is_full c = (enrolled c \<ge> capacity c)"

definition can_enroll :: "Course \<Rightarrow> bool" where
  "can_enroll c = (is_active c \<and> \<not> is_full c)"

text \<open>
  \<open>enroll_student\<close> and \<open>drop_student\<close> mutate the course and return a flag; the model
  returns the flag together with the course after the call.
\<close>

definition enroll_student :: "string \<Rightarrow> Course \<Rightarrow> bool \<times> Course" where
  "enroll_student now c =
     (if can_enroll c
      then (True, c\<lparr> enrolled := enrolled c + 1, updated_at := now \<rparr>)
      else (False, c))"

definition drop_student :: "string \<Rightarrow> Course \<Rightarrow> bool \<times> Course" where
  "drop_student now c =
     (if enrolled c > 0
      then (True, c\<lparr> enrolled := enrolled c - 1, updated_at := now \<rparr>)
      else (False, c))"

text \<open>
  A sequence of calls on one course: each call is \<open>enroll_student\<close> or \<open>drop_student\<close>
  together with the clock reading of that call. The returned flags are discarded, as a
  caller that ignores them would.
\<close>

datatype course_call = Enroll string | Drop string

fun course_step :: "Course \<Rightarrow> course_call \<Rightarrow> Course" where
  "course_step c (Enroll now) = snd (enroll_student now c)"
| "course_step c (Drop now) = snd (drop_student now c)"

definition course_run :: "Course \<Rightarrow> course_call list \<Rightarrow> Course" where
  "course_run c calls = foldl course_step c calls"

subsection \<open>Schedule conflicts\<close>

text \<open>
  The two local functions of \<open>_time_overlaps\<close>. \<open>parse_time\<close> unpacks the result of
  \<open>split('-')\<close> into exactly two names, and \<open>time_to_minutes\<close> unpacks
  \<open>map(int, split(':'))\<close> into exactly two names: any other number of parts, and any
  part that \<open>int\<close> rejects, raises \<open>ValueError\<close>. Hours and minutes are not checked
  against 24 and 60.
\<close>

definition parse_time :: "string \<Rightarrow> error + string \<times> string" where
  "parse_time time_str =
     (case str_split CHR ''-'' time_str of
        [start, en] \<Rightarrow> Inr (str_strip start, str_strip en)
      | _ \<Rightarrow> Inl ValueError)"

definition time_to_minutes :: "string \<Rightarrow> error + int" where
  "time_to_minutes time_str =
     (case map py_int (str_split CHR '':'' time_str) of
        [Inr hours, Inr minutes] \<Rightarrow> Inr (hours * 60 + minutes)
      | _ \<Rightarrow> Inl ValueError)"

text \<open>
  \<open>Course._time_overlaps(self, other_time)\<close>: both strings are split first, then the
  four end points are converted in the order of the source. Reading \<open>self.schedule.time\<close>
  of a course without a schedule raises \<open>AttributeError\<close>.
\<close>

definition time_overlaps :: "Course \<Rightarrow> string \<Rightarrow> error + bool" where
  "time_overlaps self other_time =
     (case schedule self of
        None \<Rightarrow> Inl AttributeError
      | Some s \<Rightarrow>
     (case parse_time (time s) of
        Inl e \<Rightarrow> Inl e
      | Inr (self_start, self_end) \<Rightarrow>
     (case parse_time other_time of
        Inl e \<Rightarrow> Inl e
      | Inr (other_start, other_end) \<Rightarrow>
     (case time_to_minutes self_start of
        Inl e \<Rightarrow> Inl e
      | Inr self_start_min \<Rightarrow>
     (case time_to_minutes self_end of
        Inl e \<Rightarrow> Inl e
      | Inr self_end_min \<Rightarrow>
     (case time_to_minutes other_start of
        Inl e \<Rightarrow> Inl e
      | Inr other_start_min \<Rightarrow>
     (case time_to_minutes other_end of
        Inl e \<Rightarrow> Inl e
      | Inr other_end_min \<Rightarrow>
          Inr (\<not> (self_end_min \<le> other_start_min \<or> other_end_min \<le> self_start_min)))))))))"

text \<open>
  \<open>Course.conflicts_with\<close>. A \<open>Schedule\<close> object is always truthy, so
  \<open>not (self.schedule and other_course.schedule)\<close> holds exactly when one of the two
  is \<open>None\<close>. The time strings are parsed only when the day sets intersect.
\<close>

definition conflicts_with :: "Course \<Rightarrow> Course \<Rightarrow> error + bool" where
  "conflicts_with self other_course =
     (case schedule self of
        None \<Rightarrow> Inr False
      | Some s \<Rightarrow>
     (case schedule other_course of
        None \<Rightarrow> Inr False
      | Some s' \<Rightarrow>
          if set (days s) \<inter> set (days s') = {} then Inr False
          else time_overlaps self (time s')))"

text \<open>
  The minute interval that a time string \<open>HH:MM-HH:MM\<close> denotes: the start and the end
  as \<open>parse_time\<close> and \<open>time_to_minutes\<close> compute them, or the exception they raise.
  This function is not in the source; the statements about conflicts use it to name the
  interval of a schedule.
\<close>

definition minute_interval :: "string \<Rightarrow> error + int \<times> int" where
  "minute_interval time_str =
     (case parse_time time_str of
        Inl e \<Rightarrow> Inl e
      | Inr (start, en) \<Rightarrow>
     (case time_to_minutes start of
        Inl e \<Rightarrow> Inl e
      | Inr start_min \<Rightarrow>
     (case time_to_minutes en of
        Inl e \<Rightarrow> Inl e
      | Inr end_min \<Rightarrow> Inr (start_min, end_min))))"

text \<open>
  The wire format of a schedule's time interval, written independently of the parser:
  a minute count \<open>t\<close> is rendered as two decimal digits of hours, a colon and two
  decimal digits of minutes (\<open>600\<close> is \<open>10:00\<close>), and the interval \<open>[s, e)\<close> as the two
  renderings joined by a hyphen (\<open>10:00-11:30\<close>). Two digits hold hours up to 99, so
  the rendering is defined for \<open>t < 6000\<close>; a minute of the day is below 1440. These
  functions are not in the source; the statement about conflicts uses them to say which
  interval a time string stands for.
\<close>

definition digit_char :: "nat \<Rightarrow> char" where
  "digit_char k = char_of (48 + k)"

definition two_digits :: "nat \<Rightarrow> string" where
  "two_digits n = [digit_char (n div 10), digit_char (n mod 10)]"

definition hhmm :: "nat \<Rightarrow> string" where
  "hhmm t = two_digits (t div 60) @ '':'' @ two_digits (t mod 60)"

definition time_range :: "nat \<Rightarrow> nat \<Rightarrow> string" where
  "time_range s e = hhmm s @ ''-'' @ hhmm e"

subsection \<open>Course records\<close>

text \<open>
  \<open>to_dict\<close> and \<open>from_dict\<close> exchange a course with a dictionary of fixed keys. The
  dictionary is a record with one optional field per key, \<open>None\<close> standing for an
  absent key; the values have the types of the annotations. The value under
  \<open>schedule\<close> is \<open>None\<close> (JSON null) or a schedule dictionary, hence the two options.
\<close>

record Schedule_dict =
  d_days :: "string list option"
  d_time :: "string option"
  d_room :: "string option"

record Course_dict =
  d_course_id :: "string option"
  d_name :: "string option"
  d_description :: "string option"
  d_credits :: "int option"
  d_instructor :: "string option"
  d_capacity :: "int option"
  d_enrolled :: "int option"
  d_prerequisites :: "string list option"
  d_schedule :: "Schedule_dict option option"
  d_is_active :: "bool option"
  d_created_at :: "string option"
  d_updated_at :: "string option"

definition Schedule_to_dict :: "Schedule \<Rightarrow> Schedule_dict" where
  "Schedule_to_dict s = \<lparr> d_days = Some (days s), d_time = Some (time s), d_room = Some (room s) \<rparr>"

definition Schedule_from_dict :: "Schedule_dict \<Rightarrow> Schedule" where
  "Schedule_from_dict data =
     \<lparr> days = (case d_days data of None \<Rightarrow> [] | Some v \<Rightarrow> v),
       time = (case d_time data of None \<Rightarrow> [] | Some v \<Rightarrow> v),
       room = (case d_room data of None \<Rightarrow> [] | Some v \<Rightarrow> v) \<rparr>"

definition Course_to_dict :: "Course \<Rightarrow> Course_dict" where
  "Course_to_dict c =
     \<lparr> d_course_id = Some (course_id c),
       d_name = Some (name c),
       d_description = Some (description c),
       d_credits = Some (credits c),
       d_instructor = Some (instructor c),
       d_capacity = Some (capacity c),
       d_enrolled = Some (enrolled c),
       d_prerequisites = Some (prerequisites c),
       d_schedule = Some (case schedule c of None \<Rightarrow> None | Some s \<Rightarrow> Some (Schedule_to_dict s)),
       d_is_active = Some (is_active c),
       d_created_at = Some (created_at c),
       d_updated_at = Some (updated_at c) \<rparr>"

text \<open>
  \<open>Course.from_dict\<close>. The five keys read with \<open>data[...]\<close> raise \<open>KeyError\<close> when
  absent; the others are read with \<open>data.get\<close> and a default. The clock is read twice:
  by the constructor (\<open>now_init\<close>) and for the default of \<open>created_at\<close>
  (\<open>now_default\<close>). \<open>if data.get('schedule')\<close> holds for a dictionary with at least one
  key (\<open>dict_truthy\<close>), and fails for an absent key, for null and for the empty
  dictionary.
\<close>

definition dict_truthy :: "Schedule_dict \<Rightarrow> bool" where
  "dict_truthy data = (\<not> (d_days data = None \<and> d_time data = None \<and> d_room data = None))"

definition Course_from_dict :: "string \<Rightarrow> string \<Rightarrow> Course_dict \<Rightarrow> error + Course" where
  "Course_from_dict now_init now_default data =
     (case d_course_id data of None \<Rightarrow> Inl KeyError | Some cid \<Rightarrow>
     (case d_name data of None \<Rightarrow> Inl KeyError | Some nm \<Rightarrow>
     (case d_description data of None \<Rightarrow> Inl KeyError | Some descr \<Rightarrow>
     (case d_credits data of None \<Rightarrow> Inl KeyError | Some cr \<Rightarrow>
     (case d_instructor data of None \<Rightarrow> Inl KeyError | Some instr \<Rightarrow>
       (let course = Course_init cid nm descr cr instr
                       (case d_capacity data of None \<Rightarrow> 30 | Some v \<Rightarrow> v)
                       (Some (case d_prerequisites data of None \<Rightarrow> [] | Some v \<Rightarrow> v))
                       now_init;
            course = course\<lparr> enrolled := (case d_enrolled data of None \<Rightarrow> 0 | Some v \<Rightarrow> v) \<rparr>;
            course = course\<lparr> is_active := (case d_is_active data of None \<Rightarrow> True | Some v \<Rightarrow> v) \<rparr>;
            course = course\<lparr> created_at :=
                       (case d_created_at data of None \<Rightarrow> now_default | Some v \<Rightarrow> v) \<rparr>;
            course = course\<lparr> updated_at :=
                       (case d_updated_at data of None \<Rightarrow> created_at course | Some v \<Rightarrow> v) \<rparr>
        in Inr (case d_schedule data of
                  Some (Some schedule_data) \<Rightarrow>
                    if dict_truthy schedule_data
                    then course\<lparr> schedule := Some (Schedule_from_dict schedule_data) \<rparr>
                    else course
                | _ \<Rightarrow> course)))))))"

section \<open>Registration (app/models/registration.py)\<close>

datatype RegistrationStatus = ENROLLED | DROPPED | WAITLISTED | PENDING

text \<open>
  The field \<open>course_id\<close> of a registration is named \<open>reg_course_id\<close> here, and the
  method \<open>is_active\<close> is \<open>registration_is_active\<close>, since \<open>Course\<close> has a field of
  each name; the field \<open>notes\<close> is \<open>reg_notes\<close>, the plain name being reserved.
  \<open>drop_date\<close> and \<open>grade\<close> are \<open>None\<close> or a string.
\<close>

record Registration =
  registration_id :: string
  student_id :: string
  reg_course_id :: string
  status :: RegistrationStatus
  enrollment_date :: string
  drop_date :: "string option"
  grade :: "string option"
  reg_notes :: string

text \<open>
  \<open>Registration.__init__\<close>. The identifier is \<open>registration_id or str(uuid.uuid4())\<close>:
  the fresh UUID, passed as \<open>uuid\<close>, is taken when the argument is \<open>None\<close> or the empty
  string.
\<close>

definition Registration_init :: "string \<Rightarrow> string \<Rightarrow> string option \<Rightarrow> string \<Rightarrow> string \<Rightarrow> Registration"
  where
  "Registration_init sid cid rid uuid now =
     \<lparr> registration_id = (case rid of None \<Rightarrow> uuid | Some i \<Rightarrow> if i = [] then uuid else i),
       student_id = sid, reg_course_id = cid, status = ENROLLED,
       enrollment_date = now, drop_date = None, grade = None, reg_notes = [] \<rparr>"

definition drop_course :: "string \<Rightarrow> Registration \<Rightarrow> bool \<times> Registration" where
  "drop_course now r =
     (if status r = ENROLLED
      then (True, r\<lparr> status := DROPPED, drop_date := Some now \<rparr>)
      else (False, r))"

definition re_enroll :: "Registration \<Rightarrow> bool \<times> Registration" where
  "re_enroll r =
     (if status r = DROPPED
      then (True, r\<lparr> status := ENROLLED, drop_date := None \<rparr>)
      else (False, r))"

definition set_grade :: "string \<Rightarrow> Registration \<Rightarrow> Registration" where
  "set_grade g r = r\<lparr> grade := Some g \<rparr>"

definition add_note :: "string \<Rightarrow> Registration \<Rightarrow> Registration" where
  "add_note n r =
     (if reg_notes r \<noteq> []
      then r\<lparr> reg_notes := reg_notes r @ ''; '' @ n \<rparr>
      else r\<lparr> reg_notes := n \<rparr>)"

definition registration_is_active :: "Registration \<Rightarrow> bool" where
  "registration_is_active r = (status r = ENROLLED)"

definition is_dropped :: "Registration \<Rightarrow> bool" where
  "is_dropped r = (status r = DROPPED)"

subsection \<open>RegistrationManager\<close>

text \<open>
  The manager holds one dictionary from registration identifiers to registrations. A
  Python dictionary iterates in insertion order, and the lookup by student and course
  depends on that order, so the dictionary is an association list in insertion order.
  Assigning to a key that is present keeps its position; assigning to a new key appends;
  \<open>del\<close> of an absent key raises \<open>KeyError\<close>.
\<close>

record RegistrationManager =
  registrations :: "(string \<times> Registration) list"

definition dict_values :: "('k \<times> 'v) list \<Rightarrow> 'v list" where
  "dict_values d = map snd d"

fun dict_set :: "('k \<times> 'v) list \<Rightarrow> 'k \<Rightarrow> 'v \<Rightarrow> ('k \<times> 'v) list" where
  "dict_set [] k v = [(k, v)]"
| "dict_set ((k', v') # d) k v = (if k' = k then (k, v) # d else (k', v') # dict_set d k v)"

definition dict_del :: "('k \<times> 'v) list \<Rightarrow> 'k \<Rightarrow> error + ('k \<times> 'v) list" where
  "dict_del d k =
     (if map_of d k = None then Inl KeyError else Inr (filter (\<lambda>kv. fst kv \<noteq> k) d))"

definition RegistrationManager_init :: RegistrationManager where
  "RegistrationManager_init = \<lparr> registrations = [] \<rparr>"

definition get_registration :: "RegistrationManager \<Rightarrow> string \<Rightarrow> Registration option" where
  "get_registration m rid = map_of (registrations m) rid"

text \<open>
  The loop of \<open>get_registration_by_student_and_course\<close> returns the first registration,
  in insertion order, of the student and the course, whatever its status.
\<close>

definition get_registration_by_student_and_course ::
    "RegistrationManager \<Rightarrow> string \<Rightarrow> string \<Rightarrow> Registration option" where
  "get_registration_by_student_and_course m sid cid =
     find (\<lambda>r. student_id r = sid \<and> reg_course_id r = cid) (dict_values (registrations m))"

text \<open>
  \<open>create_registration\<close>: \<open>uuid\<close> is the string that \<open>uuid.uuid4()\<close> returns in the
  constructor and \<open>now\<close> is the clock reading. The result is the returned value
  (\<open>None\<close> or the new registration) and the manager after the call.
\<close>

definition create_registration ::
    "string \<Rightarrow> string \<Rightarrow> string \<Rightarrow> string \<Rightarrow> RegistrationManager
      \<Rightarrow> Registration option \<times> RegistrationManager" where
  "create_registration sid cid uuid now m =
     (case get_registration_by_student_and_course m sid cid of
        Some existing \<Rightarrow>
          if registration_is_active existing then (None, m)
          else (let registration = Registration_init sid cid None uuid now
                in (Some registration,
                    m\<lparr> registrations :=
                         dict_set (registrations m) (registration_id registration) registration \<rparr>))
      | None \<Rightarrow>
          (let registration = Registration_init sid cid None uuid now
           in (Some registration,
               m\<lparr> registrations :=
                    dict_set (registrations m) (registration_id registration) registration \<rparr>)))"

text \<open>
  \<open>drop_registration\<close> calls \<open>drop_course\<close> on the object that the lookup returned,
  which changes that object inside the dictionary. The model writes the changed
  registration back at the entry the lookup found: the first one of the student and
  the course.
\<close>

fun store_first ::
    "(Registration \<Rightarrow> bool) \<Rightarrow> Registration \<Rightarrow> (string \<times> Registration) list
      \<Rightarrow> (string \<times> Registration) list" where
  "store_first P r' [] = []"
| "store_first P r' ((k, r) # d) = (if P r then (k, r') # d else (k, r) # store_first P r' d)"

definition drop_registration ::
    "string \<Rightarrow> string \<Rightarrow> string \<Rightarrow> RegistrationManager \<Rightarrow> bool \<times> RegistrationManager" where
  "drop_registration now sid cid m =
     (case get_registration_by_student_and_course m sid cid of
        Some registration \<Rightarrow>
          if registration_is_active registration
          then (fst (drop_course now registration),
                m\<lparr> registrations :=
                     store_first (\<lambda>r. student_id r = sid \<and> reg_course_id r = cid)
                       (snd (drop_course now registration)) (registrations m) \<rparr>)
          else (False, m)
      | None \<Rightarrow> (False, m))"

definition update_registration_status ::
    "string \<Rightarrow> RegistrationStatus \<Rightarrow> string \<Rightarrow> RegistrationManager \<Rightarrow> bool \<times> RegistrationManager"
  where
  "update_registration_status rid st now m =
     (case get_registration m rid of
        Some registration \<Rightarrow>
          (True,
           m\<lparr> registrations :=
                dict_set (registrations m) rid
                  (registration\<lparr> status := st,
                     drop_date := (if st = DROPPED then Some now else drop_date registration) \<rparr>) \<rparr>)
      | None \<Rightarrow> (False, m))"

text \<open>
  A sequence of calls on the manager, each with the arguments of the call, the UUID the
  constructor draws and the clock reading. The returned values are discarded.
\<close>

datatype registry_call =
    Create string string string string
  | DropFor string string string
  | UpdateStatus string RegistrationStatus string

fun registry_step :: "RegistrationManager \<Rightarrow> registry_call \<Rightarrow> RegistrationManager" where
  "registry_step m (Create sid cid uuid now) = snd (create_registration sid cid uuid now m)"
| "registry_step m (DropFor now sid cid) = snd (drop_registration now sid cid m)"
| "registry_step m (UpdateStatus rid st now) = snd (update_registration_status rid st now m)"

definition registry_run :: "RegistrationManager \<Rightarrow> registry_call list \<Rightarrow> RegistrationManager" where
  "registry_run m calls = foldl registry_step m calls"

text \<open>The key of a dictionary entry with the student, course and status of its value.\<close>

definition pair_status :: "string \<times> Registration \<Rightarrow> string \<times> string \<times> string \<times> RegistrationStatus" where
  "pair_status kv = (fst kv, student_id (snd kv), reg_course_id (snd kv), status (snd kv))"

subsection \<open>Cleaning up old dropped registrations\<close>

text \<open>
  A naive \<open>datetime\<close> is the number of microseconds since \<open>datetime.min\<close>
  (0001-01-01T00:00:00); the order of naive datetimes is the order of these numbers,
  and \<open>datetime_max\<close> is \<open>datetime.max\<close> (9999-12-31T23:59:59.999999).
  \<open>timedelta(days=d)\<close> raises \<open>OverflowError\<close> when the magnitude of \<open>d\<close> exceeds
  999999999, and subtracting a \<open>timedelta\<close> from a \<open>datetime\<close> raises \<open>OverflowError\<close>
  when the result is outside \<open>datetime.min .. datetime.max\<close>.
\<close>

definition timedelta_days :: "int \<Rightarrow> error + int" where
  "timedelta_days d =
     (if \<bar>d\<bar> > 999999999 then Inl OverflowError else Inr (d * 86400000000))"

definition datetime_max :: int where
  "datetime_max = 315537897599999999"

definition datetime_sub :: "int \<Rightarrow> int \<Rightarrow> error + int" where
  "datetime_sub t delta =
     (if 0 \<le> t - delta \<and> t - delta \<le> datetime_max then Inr (t - delta)
      else Inl OverflowError)"

text \<open>
  The first loop of \<open>cleanup_old_registrations\<close>, over the values of the dictionary in
  order. The library function \<open>datetime.fromisoformat\<close> is the argument
  \<open>fromisoformat\<close>: it returns the parsed naive datetime, or the exception that parsing
  the string, or comparing the parsed value with the naive cut-off date, raises. It is
  called only for a dropped registration whose \<open>drop_date\<close> is neither \<open>None\<close> nor the
  empty string, and the first exception ends the call.
\<close>

fun registrations_to_remove ::
    "(string \<Rightarrow> error + int) \<Rightarrow> int \<Rightarrow> Registration list \<Rightarrow> error + string list" where
  "registrations_to_remove fromisoformat cutoff_date [] = Inr []"
| "registrations_to_remove fromisoformat cutoff_date (registration # rest) =
     (if is_dropped registration
      then (case drop_date registration of
              None \<Rightarrow> registrations_to_remove fromisoformat cutoff_date rest
            | Some d \<Rightarrow>
                if d = [] then registrations_to_remove fromisoformat cutoff_date rest
                else (case fromisoformat d of
                        Inl e \<Rightarrow> Inl e
                      | Inr t \<Rightarrow>
                          if t < cutoff_date
                          then (case registrations_to_remove fromisoformat cutoff_date rest of
                                  Inl e \<Rightarrow> Inl e
                                | Inr ids \<Rightarrow> Inr (registration_id registration # ids))
                          else registrations_to_remove fromisoformat cutoff_date rest))
      else registrations_to_remove fromisoformat cutoff_date rest)"

text \<open>
  The second loop deletes the collected identifiers one by one and counts them. An
  exception leaves the dictionary as it is at that moment, so the result is the count
  or the exception, together with the dictionary after the call.
\<close>

fun remove_all ::
    "string list \<Rightarrow> (string \<times> Registration) list \<Rightarrow> int
      \<Rightarrow> (error + int) \<times> (string \<times> Registration) list" where
  "remove_all [] d removed_count = (Inr removed_count, d)"
| "remove_all (reg_id # ids) d removed_count =
     (case dict_del d reg_id of
        Inl e \<Rightarrow> (Inl e, d)
      | Inr d' \<Rightarrow> remove_all ids d' (removed_count + 1))"

text \<open>
  \<open>cleanup_old_registrations(days_old)\<close>, with the clock reading \<open>now\<close> of
  \<open>datetime.now()\<close>. The result is the returned count or the raised exception, and
  the manager after the call.
\<close>

definition cleanup_old_registrations ::
    "(string \<Rightarrow> error + int) \<Rightarrow> int \<Rightarrow> int \<Rightarrow> RegistrationManager
      \<Rightarrow> (error + int) \<times> RegistrationManager" where
  "cleanup_old_registrations fromisoformat now days_old m =
     (case timedelta_days days_old of
        Inl e \<Rightarrow> (Inl e, m)
      | Inr delta \<Rightarrow>
     (case datetime_sub now delta of
        Inl e \<Rightarrow> (Inl e, m)
      | Inr cutoff_date \<Rightarrow>
     (case registrations_to_remove fromisoformat cutoff_date (dict_values (registrations m)) of
        Inl e \<Rightarrow> (Inl e, m)
      | Inr ids \<Rightarrow>
          (fst (remove_all ids (registrations m) 0),
           m\<lparr> registrations := snd (remove_all ids (registrations m) 0) \<rparr>))))"

text \<open>
  A registration dropped before the cut-off date: its status is \<open>DROPPED\<close> and its
  \<open>drop_date\<close> is a non-empty string that parses to a datetime before the cut-off.
  This predicate is not in the source; the statement about the clean-up uses it.
\<close>

definition dropped_before :: "(string \<Rightarrow> error + int) \<Rightarrow> int \<Rightarrow> Registration \<Rightarrow> bool" where
  "dropped_before fromisoformat cutoff r =
     (status r = DROPPED \<and>
      (case drop_date r of
         None \<Rightarrow> False
       | Some d \<Rightarrow> (case fromisoformat d of Inl e \<Rightarrow> False | Inr t \<Rightarrow> d \<noteq> [] \<and> t < cutoff)))"

text \<open>
  The values of \<open>datetime.fromisoformat\<close> on the two drop dates of the examples below;
  the examples parse no other string.
\<close>

definition sample_fromisoformat :: "string \<Rightarrow> error + int" where
  "sample_fromisoformat s =
     (if s = ''2020-01-01T00:00:00'' then Inr 63713433600000000
      else if s = ''2026-10-01T12:00:00'' then Inr 63926452800000000
      else Inl ValueError)"

text \<open>
  The dictionary of a manager is keyed by the identifiers of its registrations, and an
  association list that stands for a dictionary has no key twice. Every operation of the
  manager keeps this (\<open>registry_run_keyed\<close> below).
\<close>

definition keyed_by_id :: "RegistrationManager \<Rightarrow> bool" where
  "keyed_by_id m =
     (list_all (\<lambda>kv. registration_id (snd kv) = fst kv) (registrations m)
      \<and> distinct (map fst (registrations m)))"

section \<open>Capacity invariant\<close>

lemma course_step_capacity: "capacity (course_step c call) = capacity c"
  by (cases call) (simp_all add: enroll_student_def drop_student_def)

lemma course_step_bounds:
  assumes "0 \<le> enrolled c" and "enrolled c \<le> capacity c"
  shows "0 \<le> enrolled (course_step c call) \<and> enrolled (course_step c call) \<le> capacity c"
  using assms
  by (cases call) (simp_all add: enroll_student_def drop_student_def can_enroll_def is_full_def)

lemma course_run_bounds:
  assumes "0 \<le> enrolled c" and "enrolled c \<le> capacity c"
  shows "capacity (course_run c calls) = capacity c
       \<and> 0 \<le> enrolled (course_run c calls)
       \<and> enrolled (course_run c calls) \<le> capacity c"
  using assms unfolding course_run_def
proof (induction calls arbitrary: c)
  case Nil
  then show ?case by simp
next
  case (Cons call calls)
  have step: "0 \<le> enrolled (course_step c call)" "enrolled (course_step c call) \<le> capacity (course_step c call)"
    using course_step_bounds [OF Cons.prems] by (simp_all add: course_step_capacity)
  show ?case
    using Cons.IH [OF step] by (simp add: course_step_capacity)
qed

text \<open>
  Claim C2. A course built by the constructor with a positive capacity keeps
  \<open>0 \<le> enrolled \<le> capacity\<close> after any sequence of \<open>enroll_student\<close> and
  \<open>drop_student\<close> calls, and the capacity itself is never changed by them.
\<close>

theorem enrolled_within_capacity:
  assumes "0 < cap"
  shows "0 \<le> enrolled (course_run (Course_init cid nm descr cr instr cap prereqs now) calls)
       \<and> enrolled (course_run (Course_init cid nm descr cr instr cap prereqs now) calls)
           \<le> capacity (course_run (Course_init cid nm descr cr instr cap prereqs now) calls)
       \<and> capacity (course_run (Course_init cid nm descr cr instr cap prereqs now) calls) = cap"
proof -
  let ?c = "Course_init cid nm descr cr instr cap prereqs now"
  have "0 \<le> enrolled ?c" and "enrolled ?c \<le> capacity ?c" and "capacity ?c = cap"
    using assms by (simp_all add: Course_init_def)
  then show ?thesis
    using course_run_bounds [of ?c calls] by simp
qed

theorem enrolled_within_capacity_witness:
  "enrolled (course_run (Course_init ''CS101'' ''Intro'' ''d'' 3 ''Ada'' 1 None ''t0'')
      [Enroll ''t1'', Enroll ''t2'', Drop ''t3'', Drop ''t4'', Enroll ''t5'']) = 1
   \<and> capacity (course_run (Course_init ''CS101'' ''Intro'' ''d'' 3 ''Ada'' 1 None ''t0'')
      [Enroll ''t1'', Enroll ''t2'', Drop ''t3'', Drop ''t4'', Enroll ''t5'']) = 1"
proof -
  have pos: "(0::int) < 1" by simp
  have cap: "capacity (course_run (Course_init ''CS101'' ''Intro'' ''d'' 3 ''Ada'' 1 None ''t0'')
      [Enroll ''t1'', Enroll ''t2'', Drop ''t3'', Drop ''t4'', Enroll ''t5'']) = 1"
    using enrolled_within_capacity [OF pos] by blast
  have run: "enrolled (course_run (Course_init ''CS101'' ''Intro'' ''d'' 3 ''Ada'' 1 None ''t0'')
      [Enroll ''t1'', Enroll ''t2'', Drop ''t3'', Drop ''t4'', Enroll ''t5'']) = 1"
    by (simp add: course_run_def Course_init_def enroll_student_def drop_student_def
        can_enroll_def is_full_def)
  show ?thesis using cap run by simp
qed

text \<open>
  Claim C3. \<open>enroll_student\<close> returns true and adds exactly one to \<open>enrolled\<close> (also
  setting \<open>updated_at\<close> to the clock reading) when the course is active and
  \<open>enrolled < capacity\<close>; on a full or inactive course it returns false and the course
  is unchanged in every field.
\<close>

theorem enroll_student_spec:
  "(is_active c \<and> enrolled c < capacity c \<longrightarrow>
      fst (enroll_student now c) = True
    \<and> enrolled (snd (enroll_student now c)) = enrolled c + 1
    \<and> snd (enroll_student now c) = c\<lparr> enrolled := enrolled c + 1, updated_at := now \<rparr>)
 \<and> (\<not> is_active c \<or> enrolled c \<ge> capacity c \<longrightarrow>
      fst (enroll_student now c) = False \<and> snd (enroll_student now c) = c)"
  by (auto simp add: enroll_student_def can_enroll_def is_full_def)

theorem enroll_student_spec_witness:
  "enroll_student ''t1'' (Course_init ''CS101'' ''Intro'' ''d'' 3 ''Ada'' 1 None ''t0'')
     = (True, (Course_init ''CS101'' ''Intro'' ''d'' 3 ''Ada'' 1 None ''t0'')
                \<lparr> enrolled := 1, updated_at := ''t1'' \<rparr>)
 \<and> enroll_student ''t2'' ((Course_init ''CS101'' ''Intro'' ''d'' 3 ''Ada'' 1 None ''t0'')
                \<lparr> enrolled := 1, updated_at := ''t1'' \<rparr>)
     = (False, (Course_init ''CS101'' ''Intro'' ''d'' 3 ''Ada'' 1 None ''t0'')
                \<lparr> enrolled := 1, updated_at := ''t1'' \<rparr>)
 \<and> enroll_student ''t2'' ((Course_init ''CS101'' ''Intro'' ''d'' 3 ''Ada'' 5 None ''t0'')
                \<lparr> is_active := False \<rparr>)
     = (False, (Course_init ''CS101'' ''Intro'' ''d'' 3 ''Ada'' 5 None ''t0'')
                \<lparr> is_active := False \<rparr>)"
proof -
  let ?c0 = "Course_init ''CS101'' ''Intro'' ''d'' 3 ''Ada'' 1 None ''t0''"
  let ?c1 = "?c0\<lparr> enrolled := 1, updated_at := ''t1'' \<rparr>"
  let ?c2 = "(Course_init ''CS101'' ''Intro'' ''d'' 3 ''Ada'' 5 None ''t0'')\<lparr> is_active := False \<rparr>"
  have a: "is_active ?c0 \<and> enrolled ?c0 < capacity ?c0" by (simp add: Course_init_def)
  have b: "\<not> is_active ?c1 \<or> enrolled ?c1 \<ge> capacity ?c1" by (simp add: Course_init_def)
  have c: "\<not> is_active ?c2 \<or> enrolled ?c2 \<ge> capacity ?c2" by (simp add: Course_init_def)
  have e0: "enrolled ?c0 = 0" by (simp add: Course_init_def)
  have "enroll_student ''t1'' ?c0 = (True, ?c1)"
    using enroll_student_spec [of ?c0 "''t1''"] a e0 by (simp add: prod_eq_iff)
  moreover have "enroll_student ''t2'' ?c1 = (False, ?c1)"
    using enroll_student_spec [of ?c1 "''t2''"] b by (simp add: prod_eq_iff)
  moreover have "enroll_student ''t2'' ?c2 = (False, ?c2)"
    using enroll_student_spec [of ?c2 "''t2''"] c by (simp add: prod_eq_iff)
  ultimately show ?thesis by simp
qed

section \<open>Schedule conflicts are half-open interval overlaps\<close>

lemma time_overlaps_intervals:
  assumes "schedule c = Some s"
    and "minute_interval (time s) = Inr (a1, e1)"
    and "minute_interval t = Inr (a2, e2)"
  shows "time_overlaps c t = Inr (a1 < e2 \<and> a2 < e1)"
  using assms
  by (auto simp add: time_overlaps_def minute_interval_def split: sum.splits prod.splits)

text \<open>
  The parser reads the wire format back: the rendering of \<open>[s, e)\<close> is split, stripped
  and converted to exactly the minute counts \<open>s\<close> and \<open>e\<close>.
\<close>

lemma of_char_digit_char: "k < 10 \<Longrightarrow> of_char (digit_char k) = 48 + k"
  by (simp add: digit_char_def)

lemma digit_char_facts:
  assumes "k < 10"
  shows "isdigit (digit_char k)" and "digit_value (digit_char k) = k"
    and "\<not> isspace (digit_char k)" and "\<not> int_isspace (digit_char k)"
    and "digit_char k \<noteq> CHR ''-''" and "digit_char k \<noteq> CHR ''+''"
    and "digit_char k \<noteq> CHR '':''"
proof -
  have v: "(of_char (digit_char k) :: nat) = 48 + k"
    using assms by (rule of_char_digit_char)
  show "isdigit (digit_char k)" using assms by (simp add: isdigit_def v)
  show "digit_value (digit_char k) = k" by (simp add: digit_value_def v)
  show "\<not> isspace (digit_char k)" using assms by (simp add: isspace_def v)
  show "\<not> int_isspace (digit_char k)" using assms by (simp add: int_isspace_def v)
  have "(of_char (digit_char k) :: nat) \<noteq> of_char CHR ''-''" using assms by (simp add: v)
  then show "digit_char k \<noteq> CHR ''-''" by auto
  have "(of_char (digit_char k) :: nat) \<noteq> of_char CHR ''+''" using assms by (simp add: v)
  then show "digit_char k \<noteq> CHR ''+''" by auto
  have "(of_char (digit_char k) :: nat) \<noteq> of_char CHR '':''" using assms by (simp add: v)
  then show "digit_char k \<noteq> CHR '':''" by auto
qed

lemma py_int_two_digits:
  assumes "n < 100"
  shows "py_int (two_digits n) = Inr (int n)"
proof -
  have a: "n div 10 < 10" and b: "n mod 10 < 10" using assms by simp_all
  have "int (n div 10 * 10 + n mod 10) = int n" by simp
  then show ?thesis
    using digit_char_facts [OF a] digit_char_facts [OF b]
    by (simp add: py_int_def two_digits_def int_strip_def int_literal_def max_str_digits_def)
qed

lemma time_to_minutes_hhmm:
  assumes "t < 6000"
  shows "time_to_minutes (hhmm t) = Inr (int t)"
proof -
  have h: "t div 60 < 100" and m: "t mod 60 < 100" using assms by simp_all
  have a: "t div 60 div 10 < 10" "t div 60 mod 10 < 10" "t mod 60 div 10 < 10" "t mod 60 mod 10 < 10"
    using h by simp_all
  have split: "str_split CHR '':'' (hhmm t) = [two_digits (t div 60), two_digits (t mod 60)]"
    using digit_char_facts(7) [OF a(1)] digit_char_facts(7) [OF a(2)]
      digit_char_facts(7) [OF a(3)] digit_char_facts(7) [OF a(4)]
    by (simp add: hhmm_def two_digits_def)
  have "t div 60 * 60 + t mod 60 = t"
    by (rule div_mult_mod_eq)
  then have "int (t div 60 * 60 + t mod 60) = int t"
    by (rule arg_cong)
  then have "int (t div 60) * 60 + int (t mod 60) = int t"
    by (simp only: of_nat_add of_nat_mult of_nat_numeral)
  then show ?thesis
    using py_int_two_digits [OF h] py_int_two_digits [OF m]
    by (simp add: time_to_minutes_def split)
qed

lemma str_strip_hhmm:
  assumes "t < 6000"
  shows "str_strip (hhmm t) = hhmm t"
proof -
  have a: "t div 60 div 10 < 10" "t mod 60 mod 10 < 10" using assms by simp_all
  show ?thesis
    using digit_char_facts(3) [OF a(1)] digit_char_facts(3) [OF a(2)]
    by (simp add: str_strip_def hhmm_def two_digits_def)
qed

lemma parse_time_range:
  assumes "s < 6000" and "e < 6000"
  shows "parse_time (time_range s e) = Inr (hhmm s, hhmm e)"
proof -
  have a: "s div 60 div 10 < 10" "s div 60 mod 10 < 10" "s mod 60 div 10 < 10" "s mod 60 mod 10 < 10"
    and b: "e div 60 div 10 < 10" "e div 60 mod 10 < 10" "e mod 60 div 10 < 10" "e mod 60 mod 10 < 10"
    using assms by simp_all
  have "str_split CHR ''-'' (time_range s e) = [hhmm s, hhmm e]"
    using digit_char_facts(5) [OF a(1)] digit_char_facts(5) [OF a(2)]
      digit_char_facts(5) [OF a(3)] digit_char_facts(5) [OF a(4)]
      digit_char_facts(5) [OF b(1)] digit_char_facts(5) [OF b(2)]
      digit_char_facts(5) [OF b(3)] digit_char_facts(5) [OF b(4)]
    by (simp add: time_range_def hhmm_def two_digits_def)
  then show ?thesis
    using str_strip_hhmm [OF assms(1)] str_strip_hhmm [OF assms(2)]
    by (simp add: parse_time_def)
qed

lemma minute_interval_time_range:
  assumes "s < 6000" and "e < 6000"
  shows "minute_interval (time_range s e) = Inr (int s, int e)"
  using parse_time_range [OF assms] time_to_minutes_hhmm [OF assms(1)]
    time_to_minutes_hhmm [OF assms(2)]
  by (simp add: minute_interval_def)

text \<open>
  Claim C4 fails as stated for every pair of scheduled courses that share a day: the
  time of a schedule is any string, and when it is not a time interval
  \<open>conflicts_with\<close> returns neither true nor false but raises \<open>ValueError\<close>.
\<close>

theorem conflicts_with_unparseable_time:
  "conflicts_with
     (set_schedule [''Mon''] ''TBA'' ''R1'' ''t1''
        (Course_init ''CS101'' ''Intro'' ''d'' 3 ''Ada'' 30 None ''t0''))
     (set_schedule [''Mon'', ''Wed''] ''10:00-11:30'' ''R2'' ''t1''
        (Course_init ''MATH101'' ''Calculus'' ''d'' 4 ''Bob'' 30 None ''t0''))
   = Inl ValueError"
  by (simp add: conflicts_with_def time_overlaps_def set_schedule_def Course_init_def
      parse_time_def)

text \<open>
  Claim C4 as amended. For two courses that both have a schedule, whose day sets
  intersect and whose time strings are the \<open>HH:MM-HH:MM\<close> renderings of the minute
  intervals \<open>[a1, e1)\<close> and \<open>[a2, e2)\<close>, \<open>conflicts_with\<close> returns true exactly when
  \<open>a1 < e2\<close> and \<open>a2 < e1\<close>; in particular touching intervals (\<open>e1 = a2\<close>) do not
  conflict. It returns false when either course has no schedule and when the day sets
  are disjoint, and the rooms of the two schedules have no influence on the result.
\<close>

theorem conflicts_with_half_open:
  "(schedule c1 = Some s1 \<and> schedule c2 = Some s2
      \<and> set (days s1) \<inter> set (days s2) \<noteq> {}
      \<and> a1 < 6000 \<and> e1 < 6000 \<and> a2 < 6000 \<and> e2 < 6000
      \<and> time s1 = time_range a1 e1
      \<and> time s2 = time_range a2 e2
    \<longrightarrow> conflicts_with c1 c2 = Inr (a1 < e2 \<and> a2 < e1)
      \<and> (e1 = a2 \<longrightarrow> conflicts_with c1 c2 = Inr False))
 \<and> (schedule c1 = None \<or> schedule c2 = None \<longrightarrow> conflicts_with c1 c2 = Inr False)
 \<and> (schedule c1 = Some s1 \<and> schedule c2 = Some s2
      \<and> set (days s1) \<inter> set (days s2) = {}
    \<longrightarrow> conflicts_with c1 c2 = Inr False)
 \<and> (schedule c1 = Some s1 \<and> schedule c2 = Some s2
    \<longrightarrow> conflicts_with (c1\<lparr> schedule := Some (s1\<lparr> room := r1 \<rparr>) \<rparr>)
                        (c2\<lparr> schedule := Some (s2\<lparr> room := r2 \<rparr>) \<rparr>)
          = conflicts_with c1 c2)"
proof (intro conjI impI)
  assume h: "schedule c1 = Some s1 \<and> schedule c2 = Some s2
      \<and> set (days s1) \<inter> set (days s2) \<noteq> {}
      \<and> a1 < 6000 \<and> e1 < 6000 \<and> a2 < 6000 \<and> e2 < 6000
      \<and> time s1 = time_range a1 e1
      \<and> time s2 = time_range a2 e2"
  have i1: "minute_interval (time s1) = Inr (int a1, int e1)"
    using h minute_interval_time_range [of a1 e1] by simp
  have i2: "minute_interval (time s2) = Inr (int a2, int e2)"
    using h minute_interval_time_range [of a2 e2] by simp
  show ov: "conflicts_with c1 c2 = Inr (a1 < e2 \<and> a2 < e1)"
    using h time_overlaps_intervals [OF _ i1 i2, of c1]
    by (simp add: conflicts_with_def)
  assume "e1 = a2"
  then show "conflicts_with c1 c2 = Inr False"
    using ov by simp
next
  assume "schedule c1 = None \<or> schedule c2 = None"
  then show "conflicts_with c1 c2 = Inr False"
    by (auto simp add: conflicts_with_def split: option.splits)
next
  assume "schedule c1 = Some s1 \<and> schedule c2 = Some s2
      \<and> set (days s1) \<inter> set (days s2) = {}"
  then show "conflicts_with c1 c2 = Inr False"
    by (simp add: conflicts_with_def)
next
  assume "schedule c1 = Some s1 \<and> schedule c2 = Some s2"
  then show "conflicts_with (c1\<lparr> schedule := Some (s1\<lparr> room := r1 \<rparr>) \<rparr>)
                        (c2\<lparr> schedule := Some (s2\<lparr> room := r2 \<rparr>) \<rparr>)
          = conflicts_with c1 c2"
    by (simp add: conflicts_with_def time_overlaps_def)
qed

theorem conflicts_with_half_open_witness:
  "conflicts_with
     (set_schedule [''Mon''] ''10:00-11:30'' ''R1'' ''t1''
        (Course_init ''CS101'' ''Intro'' ''d'' 3 ''Ada'' 30 None ''t0''))
     (set_schedule [''Mon'', ''Wed''] ''11:30-13:00'' ''R2'' ''t1''
        (Course_init ''MATH101'' ''Calculus'' ''d'' 4 ''Bob'' 30 None ''t0''))
     = Inr False
 \<and> conflicts_with
     (set_schedule [''Mon''] ''10:00-11:30'' ''R1'' ''t1''
        (Course_init ''CS101'' ''Intro'' ''d'' 3 ''Ada'' 30 None ''t0''))
     (set_schedule [''Mon'', ''Wed''] ''11:00-12:00'' ''R2'' ''t1''
        (Course_init ''MATH101'' ''Calculus'' ''d'' 4 ''Bob'' 30 None ''t0''))
     = Inr True"
proof -
  let ?s1 = "\<lparr> days = [''Mon''], time = ''10:00-11:30'', room = ''R1'' \<rparr>"
  let ?s2 = "\<lparr> days = [''Mon'', ''Wed''], time = ''11:30-13:00'', room = ''R2'' \<rparr>"
  let ?s3 = "\<lparr> days = [''Mon'', ''Wed''], time = ''11:00-12:00'', room = ''R2'' \<rparr>"
  let ?c1 = "set_schedule [''Mon''] ''10:00-11:30'' ''R1'' ''t1''
        (Course_init ''CS101'' ''Intro'' ''d'' 3 ''Ada'' 30 None ''t0'')"
  let ?c2 = "set_schedule [''Mon'', ''Wed''] ''11:30-13:00'' ''R2'' ''t1''
        (Course_init ''MATH101'' ''Calculus'' ''d'' 4 ''Bob'' 30 None ''t0'')"
  let ?c3 = "set_schedule [''Mon'', ''Wed''] ''11:00-12:00'' ''R2'' ''t1''
        (Course_init ''MATH101'' ''Calculus'' ''d'' 4 ''Bob'' 30 None ''t0'')"
  have t1: "''10:00-11:30'' = time_range 600 690" by code_simp
  have t2: "''11:30-13:00'' = time_range 690 780" by code_simp
  have t3: "''11:00-12:00'' = time_range 660 720" by code_simp
  have h12: "schedule ?c1 = Some ?s1 \<and> schedule ?c2 = Some ?s2
      \<and> set (days ?s1) \<inter> set (days ?s2) \<noteq> {}
      \<and> (600::nat) < 6000 \<and> (690::nat) < 6000 \<and> (690::nat) < 6000 \<and> (780::nat) < 6000
      \<and> time ?s1 = time_range 600 690
      \<and> time ?s2 = time_range 690 780"
    using t1 t2 by (simp add: set_schedule_def)
  have h13: "schedule ?c1 = Some ?s1 \<and> schedule ?c3 = Some ?s3
      \<and> set (days ?s1) \<inter> set (days ?s3) \<noteq> {}
      \<and> (600::nat) < 6000 \<and> (690::nat) < 6000 \<and> (660::nat) < 6000 \<and> (720::nat) < 6000
      \<and> time ?s1 = time_range 600 690
      \<and> time ?s3 = time_range 660 720"
    using t1 t3 by (simp add: set_schedule_def)
  have "conflicts_with ?c1 ?c2 = Inr (600 < (780::nat) \<and> 690 < (690::nat))"
    using conflicts_with_half_open [of ?c1 ?s1 ?c2 ?s2 600 690 690 780] h12 by blast
  moreover have "conflicts_with ?c1 ?c3 = Inr (600 < (720::nat) \<and> 660 < (690::nat))"
    using conflicts_with_half_open [of ?c1 ?s1 ?c3 ?s3 600 690 660 720] h13 by blast
  ultimately show ?thesis by simp
qed

section \<open>Registration status transitions\<close>

text \<open>
  Claim C7. \<open>drop_course\<close> succeeds exactly from \<open>ENROLLED\<close>, and then sets the
  status to \<open>DROPPED\<close> and \<open>drop_date\<close> to the clock reading; \<open>re_enroll\<close> succeeds
  exactly from \<open>DROPPED\<close>, and then sets the status to \<open>ENROLLED\<close> and clears
  \<open>drop_date\<close>; from every other status each returns false and changes nothing. After
  a successful drop followed by \<open>re_enroll\<close> the status is \<open>ENROLLED\<close> and
  \<open>drop_date\<close> is \<open>None\<close>.
\<close>

theorem transitions_spec:
  "fst (drop_course now r) = (status r = ENROLLED)
 \<and> (status r = ENROLLED \<longrightarrow>
        drop_course now r = (True, r\<lparr> status := DROPPED, drop_date := Some now \<rparr>))
 \<and> (status r \<noteq> ENROLLED \<longrightarrow> drop_course now r = (False, r))
 \<and> fst (re_enroll r) = (status r = DROPPED)
 \<and> (status r = DROPPED \<longrightarrow>
        re_enroll r = (True, r\<lparr> status := ENROLLED, drop_date := None \<rparr>))
 \<and> (status r \<noteq> DROPPED \<longrightarrow> re_enroll r = (False, r))
 \<and> (status r = ENROLLED \<longrightarrow>
        fst (re_enroll (snd (drop_course now r))) = True
      \<and> status (snd (re_enroll (snd (drop_course now r)))) = ENROLLED
      \<and> drop_date (snd (re_enroll (snd (drop_course now r)))) = None)"
  by (simp add: drop_course_def re_enroll_def)

theorem transitions_spec_witness:
  "drop_course ''t1'' (Registration_init ''S1'' ''C1'' None ''r1'' ''t0'')
     = (True, (Registration_init ''S1'' ''C1'' None ''r1'' ''t0'')
                \<lparr> status := DROPPED, drop_date := Some ''t1'' \<rparr>)
 \<and> re_enroll ((Registration_init ''S1'' ''C1'' None ''r1'' ''t0'')
                \<lparr> status := DROPPED, drop_date := Some ''t1'' \<rparr>)
     = (True, (Registration_init ''S1'' ''C1'' None ''r1'' ''t0'')
                \<lparr> status := ENROLLED, drop_date := None \<rparr>)
 \<and> re_enroll (Registration_init ''S1'' ''C1'' None ''r1'' ''t0'')
     = (False, Registration_init ''S1'' ''C1'' None ''r1'' ''t0'')
 \<and> drop_course ''t2'' ((Registration_init ''S1'' ''C1'' None ''r1'' ''t0'')
                \<lparr> status := WAITLISTED \<rparr>)
     = (False, (Registration_init ''S1'' ''C1'' None ''r1'' ''t0'') \<lparr> status := WAITLISTED \<rparr>)"
proof -
  let ?r0 = "Registration_init ''S1'' ''C1'' None ''r1'' ''t0''"
  let ?r1 = "?r0\<lparr> status := DROPPED, drop_date := Some ''t1'' \<rparr>"
  let ?r2 = "?r0\<lparr> status := WAITLISTED \<rparr>"
  have s0: "status ?r0 = ENROLLED" by (simp add: Registration_init_def)
  have s1: "status ?r1 = DROPPED" by simp
  have s2: "status ?r2 \<noteq> ENROLLED" by simp
  have "drop_course ''t1'' ?r0 = (True, ?r1)"
    using transitions_spec [of "''t1''" ?r0] s0 by simp
  moreover have "re_enroll ?r1 = (True, ?r0\<lparr> status := ENROLLED, drop_date := None \<rparr>)"
    using transitions_spec [of "''t1''" ?r1] s1 by simp
  moreover have "re_enroll ?r0 = (False, ?r0)"
    using transitions_spec [of "''t1''" ?r0] s0 by simp
  moreover have "drop_course ''t2'' ?r2 = (False, ?r2)"
    using transitions_spec [of "''t2''" ?r2] s2 by simp
  ultimately show ?thesis by simp
qed

section \<open>The registry's lookup by student and course\<close>

lemmas registry_eval =
  registry_run_def create_registration_def drop_registration_def update_registration_status_def
  get_registration_by_student_and_course_def get_registration_def dict_values_def
  Registration_init_def RegistrationManager_init_def registration_is_active_def drop_course_def
  pair_status_def Let_def

text \<open>
  Claim C1, evaluated where it fails. A student enrols in a course, drops it, and
  enrols again: the dictionary now holds the dropped registration \<open>r1\<close> before the
  active one \<open>r2\<close>. The lookup of \<open>create_registration\<close> returns \<open>r1\<close>, which is not
  active, so a further \<open>create_registration\<close> for the same pair is not refused: it
  returns a new registration \<open>r3\<close>, and the registry then holds two \<open>ENROLLED\<close>
  registrations of the pair.
\<close>

theorem create_registration_shadowed_duplicate:
  "fst (create_registration ''S1'' ''C1'' ''r3'' ''t4''
          (registry_run RegistrationManager_init
             [Create ''S1'' ''C1'' ''r1'' ''t1'', DropFor ''t2'' ''S1'' ''C1'',
              Create ''S1'' ''C1'' ''r2'' ''t3'']))
     = Some (Registration_init ''S1'' ''C1'' None ''r3'' ''t4'')
 \<and> map pair_status (registrations
        (registry_run RegistrationManager_init
           [Create ''S1'' ''C1'' ''r1'' ''t1'', DropFor ''t2'' ''S1'' ''C1'',
            Create ''S1'' ''C1'' ''r2'' ''t3'', Create ''S1'' ''C1'' ''r3'' ''t4'']))
     = [(''r1'', ''S1'', ''C1'', DROPPED), (''r2'', ''S1'', ''C1'', ENROLLED),
        (''r3'', ''S1'', ''C1'', ENROLLED)]"
  by (simp add: registry_eval)

text \<open>
  Claim C5, evaluated where it fails. In the same state (the dropped \<open>r1\<close> before the
  active \<open>r2\<close>) \<open>drop_registration\<close> looks up \<open>r1\<close>, finds it inactive and returns
  false without changing anything, although the \<open>ENROLLED\<close> registration \<open>r2\<close> of the
  pair exists.
\<close>

theorem drop_registration_shadowed_active:
  "map pair_status (registrations
        (registry_run RegistrationManager_init
           [Create ''S1'' ''C1'' ''r1'' ''t1'', DropFor ''t2'' ''S1'' ''C1'',
            Create ''S1'' ''C1'' ''r2'' ''t3'']))
     = [(''r1'', ''S1'', ''C1'', DROPPED), (''r2'', ''S1'', ''C1'', ENROLLED)]
 \<and> drop_registration ''t4'' ''S1'' ''C1''
        (registry_run RegistrationManager_init
           [Create ''S1'' ''C1'' ''r1'' ''t1'', DropFor ''t2'' ''S1'' ''C1'',
            Create ''S1'' ''C1'' ''r2'' ''t3''])
     = (False, registry_run RegistrationManager_init
           [Create ''S1'' ''C1'' ''r1'' ''t1'', DropFor ''t2'' ''S1'' ''C1'',
            Create ''S1'' ''C1'' ''r2'' ''t3''])"
  by (simp add: registry_eval)

text \<open>
  Claim C6, evaluated where it fails. \<open>update_registration_status\<close> sets \<open>drop_date\<close>
  when the new status is \<open>DROPPED\<close> and leaves it alone otherwise: moving a dropped
  registration back to \<open>ENROLLED\<close> through it keeps the old \<open>drop_date\<close>, where
  \<open>re_enroll\<close> clears it.
\<close>

theorem update_status_keeps_drop_date:
  "map (\<lambda>kv. (fst kv, status (snd kv), drop_date (snd kv)))
     (registrations
        (registry_run RegistrationManager_init
           [Create ''S1'' ''C1'' ''r1'' ''t1'', DropFor ''t2'' ''S1'' ''C1'',
            UpdateStatus ''r1'' ENROLLED ''t3'']))
     = [(''r1'', ENROLLED, Some ''t2'')]"
  by (simp add: registry_eval)

section \<open>Course records round-trip\<close>

text \<open>
  Claim C10. For every course \<open>c\<close>, \<open>Course.from_dict(c.to_dict())\<close> raises nothing and
  returns a course equal to \<open>c\<close> in every field, the schedule and its fields and both
  timestamps included, whatever the clock reads during the call.
\<close>

theorem from_dict_to_dict:
  "Course_from_dict now_init now_default (Course_to_dict c) = Inr c"
proof (cases "schedule c")
  case None
  then show ?thesis
    by (cases c) (simp add: Course_from_dict_def Course_to_dict_def Course_init_def Let_def)
next
  case (Some s)
  then show ?thesis
    by (cases c)
      (simp add: Course_from_dict_def Course_to_dict_def Course_init_def Let_def
        Schedule_from_dict_def Schedule_to_dict_def dict_truthy_def)
qed

theorem from_dict_to_dict_witness:
  "Course_from_dict ''t8'' ''t9''
     (Course_to_dict
        (set_schedule [''Mon'', ''Wed''] ''10:00-11:30'' ''R1'' ''t1''
           (Course_init ''CS101'' ''Intro'' ''d'' 3 ''Ada'' 30 (Some [''MATH101'']) ''t0'')))
   = Inr \<lparr> course_id = ''CS101'', name = ''Intro'', description = ''d'', credits = 3,
           instructor = ''Ada'', capacity = 30, enrolled = 0, prerequisites = [''MATH101''],
           schedule = Some \<lparr> days = [''Mon'', ''Wed''], time = ''10:00-11:30'', room = ''R1'' \<rparr>,
           is_active = True, created_at = ''t0'', updated_at = ''t1'' \<rparr>"
  using from_dict_to_dict [of "''t8''" "''t9''"
      "set_schedule [''Mon'', ''Wed''] ''10:00-11:30'' ''R1'' ''t1''
         (Course_init ''CS101'' ''Intro'' ''d'' 3 ''Ada'' 30 (Some [''MATH101'']) ''t0'')"]
  by (simp add: set_schedule_def Course_init_def)

section \<open>Construction does not validate\<close>

lemma parse_time_error: "parse_time t = Inl e \<Longrightarrow> e = ValueError"
  by (auto simp add: parse_time_def split: list.splits)

lemma time_to_minutes_error: "time_to_minutes t = Inl e \<Longrightarrow> e = ValueError"
  by (auto simp add: time_to_minutes_def split: list.splits sum.splits)

lemma minute_interval_error: "minute_interval t = Inl e \<Longrightarrow> e = ValueError"
  by (auto simp add: minute_interval_def split: sum.splits prod.splits
      dest: parse_time_error time_to_minutes_error)

lemma time_overlaps_raises:
  assumes "schedule c = Some s"
    and "minute_interval (time s) = Inl e \<or> minute_interval t = Inl e"
  shows "time_overlaps c t = Inl ValueError"
  using assms
  by (auto simp add: time_overlaps_def minute_interval_def split: sum.splits prod.splits
      dest: parse_time_error time_to_minutes_error)

text \<open>
  Claim C9 fails: the constructor accepts a negative number of credits and a negative
  capacity and stores them, \<open>Schedule.from_dict\<close> accepts a time string that denotes no
  interval, and puts the empty string where the key \<open>time\<close> is absent.
\<close>

theorem malformed_input_accepted:
  "Course_init ''X1'' ''n'' ''d'' (- 3) ''Ada'' (- 5) None ''t0''
     = \<lparr> course_id = ''X1'', name = ''n'', description = ''d'', credits = - 3,
         instructor = ''Ada'', capacity = - 5, enrolled = 0, prerequisites = [],
         schedule = None, is_active = True, created_at = ''t0'', updated_at = ''t0'' \<rparr>
 \<and> Schedule_from_dict \<lparr> d_days = Some [''Mon''], d_time = Some ''soon'', d_room = Some ''R1'' \<rparr>
     = \<lparr> days = [''Mon''], time = ''soon'', room = ''R1'' \<rparr>
 \<and> minute_interval ''soon'' = Inl ValueError
 \<and> Schedule_from_dict \<lparr> d_days = Some [''Mon''], d_time = None, d_room = Some ''R1'' \<rparr>
     = \<lparr> days = [''Mon''], time = [], room = ''R1'' \<rparr>"
  by (simp add: Course_init_def Schedule_from_dict_def minute_interval_def parse_time_def)

text \<open>
  Claim C9 as amended. \<open>Course.__init__\<close>, \<open>set_schedule\<close> and \<open>Schedule.from_dict\<close>
  check nothing: credits, capacity and the time string are stored as given, and a
  missing \<open>time\<close> key becomes the empty string. A time string that cannot be parsed is
  reported later, as \<open>ValueError\<close>, when \<open>conflicts_with\<close> compares two courses that both
  have a schedule and share a day.
\<close>

theorem construction_stores_unvalidated:
  "credits (Course_init cid nm descr cr instr cap prereqs now) = cr
 \<and> capacity (Course_init cid nm descr cr instr cap prereqs now) = cap
 \<and> schedule (set_schedule ds t r now c) = Some \<lparr> days = ds, time = t, room = r \<rparr>
 \<and> time (Schedule_from_dict \<lparr> d_days = dd, d_time = Some t, d_room = dr \<rparr>) = t
 \<and> time (Schedule_from_dict \<lparr> d_days = dd, d_time = None, d_room = dr \<rparr>) = []
 \<and> (schedule c1 = Some s1 \<and> schedule c2 = Some s2
      \<and> set (days s1) \<inter> set (days s2) \<noteq> {}
      \<and> (minute_interval (time s1) = Inl e \<or> minute_interval (time s2) = Inl e)
    \<longrightarrow> conflicts_with c1 c2 = Inl ValueError)"
proof (intro conjI impI)
  assume h: "schedule c1 = Some s1 \<and> schedule c2 = Some s2
      \<and> set (days s1) \<inter> set (days s2) \<noteq> {}
      \<and> (minute_interval (time s1) = Inl e \<or> minute_interval (time s2) = Inl e)"
  then have "time_overlaps c1 (time s2) = Inl ValueError"
    using time_overlaps_raises [of c1 s1 e "time s2"] by simp
  then show "conflicts_with c1 c2 = Inl ValueError"
    using h by (simp add: conflicts_with_def)
qed (simp_all add: Course_init_def set_schedule_def Schedule_from_dict_def)

theorem construction_stores_unvalidated_witness:
  "conflicts_with
     (set_schedule [''Mon''] ''soon'' ''R1'' ''t1''
        (Course_init ''X1'' ''n'' ''d'' (- 3) ''Ada'' (- 5) None ''t0''))
     (set_schedule [''Mon''] ''10:00-11:30'' ''R2'' ''t1''
        (Course_init ''CS101'' ''Intro'' ''d'' 3 ''Ada'' 30 None ''t0''))
   = Inl ValueError
 \<and> conflicts_with
     (set_schedule [''Mon''] (''10'' @ [CHR 0x1C] @ '':00-11:30'') ''R1'' ''t1''
        (Course_init ''X1'' ''n'' ''d'' (- 3) ''Ada'' (- 5) None ''t0''))
     (set_schedule [''Mon''] ''10:00-11:30'' ''R2'' ''t1''
        (Course_init ''CS101'' ''Intro'' ''d'' 3 ''Ada'' 30 None ''t0''))
   = Inl ValueError"
proof -
  let ?s1 = "\<lparr> days = [''Mon''], time = ''soon'', room = ''R1'' \<rparr>"
  let ?s2 = "\<lparr> days = [''Mon''], time = ''10:00-11:30'', room = ''R2'' \<rparr>"
  let ?c1 = "set_schedule [''Mon''] ''soon'' ''R1'' ''t1''
        (Course_init ''X1'' ''n'' ''d'' (- 3) ''Ada'' (- 5) None ''t0'')"
  let ?c2 = "set_schedule [''Mon''] ''10:00-11:30'' ''R2'' ''t1''
        (Course_init ''CS101'' ''Intro'' ''d'' 3 ''Ada'' 30 None ''t0'')"
  have bad: "minute_interval ''soon'' = Inl ValueError"
    by (simp add: minute_interval_def parse_time_def)
  have h: "schedule ?c1 = Some ?s1 \<and> schedule ?c2 = Some ?s2
      \<and> set (days ?s1) \<inter> set (days ?s2) \<noteq> {}
      \<and> (minute_interval (time ?s1) = Inl ValueError \<or> minute_interval (time ?s2) = Inl ValueError)"
    using bad by (simp add: set_schedule_def)
  have first: "conflicts_with ?c1 ?c2 = Inl ValueError"
    using construction_stores_unvalidated [where ?c1.0 = ?c1 and ?s1.0 = ?s1
        and ?c2.0 = ?c2 and ?s2.0 = ?s2 and e = ValueError] h
    by blast
  let ?t3 = "''10'' @ [CHR 0x1C] @ '':00-11:30''"
  let ?s3 = "\<lparr> days = [''Mon''], time = ?t3, room = ''R1'' \<rparr>"
  let ?c3 = "set_schedule [''Mon''] ?t3 ''R1'' ''t1''
        (Course_init ''X1'' ''n'' ''d'' (- 3) ''Ada'' (- 5) None ''t0'')"
  have separator: "minute_interval ?t3 = Inl ValueError"
    by code_simp
  have h3: "schedule ?c3 = Some ?s3 \<and> schedule ?c2 = Some ?s2
      \<and> set (days ?s3) \<inter> set (days ?s2) \<noteq> {}
      \<and> (minute_interval (time ?s3) = Inl ValueError \<or> minute_interval (time ?s2) = Inl ValueError)"
    using separator by (simp add: set_schedule_def)
  have "conflicts_with ?c3 ?c2 = Inl ValueError"
    using construction_stores_unvalidated [where ?c1.0 = ?c3 and ?s1.0 = ?s3
        and ?c2.0 = ?c2 and ?s2.0 = ?s2 and e = ValueError] h3
    by blast
  then show ?thesis
    using first by blast
qed

section \<open>Cleaning up old dropped registrations\<close>

lemma dict_set_keys:
  "map fst (dict_set d k v) = (if k \<in> set (map fst d) then map fst d else map fst d @ [k])"
  by (induction d) (auto simp add: rev_image_eqI)

lemma dict_set_entries: "set (dict_set d k v) \<subseteq> insert (k, v) (set d)"
  by (induction d) (auto split: if_splits)

lemma dict_set_keyed:
  assumes "list_all Q d" and "Q (k, v)"
  shows "list_all Q (dict_set d k v)"
  using assms dict_set_entries [of d k v] by (auto simp add: list_all_iff)

lemma store_first_keys: "map fst (store_first P r' d) = map fst d"
  by (induction P r' d rule: store_first.induct) auto

lemma store_first_keyed:
  assumes "find P (map snd d) = Some r0"
    and "list_all (\<lambda>kv. registration_id (snd kv) = fst kv) d"
    and "registration_id r' = registration_id r0"
  shows "list_all (\<lambda>kv. registration_id (snd kv) = fst kv) (store_first P r' d)"
  using assms
  by (induction P r' d rule: store_first.induct) (auto split: if_splits)

lemma keyed_by_id_init: "keyed_by_id RegistrationManager_init"
  by (simp add: keyed_by_id_def RegistrationManager_init_def)

lemma create_registration_keyed:
  assumes "keyed_by_id m"
  shows "keyed_by_id (snd (create_registration sid cid uuid now m))"
proof -
  let ?r = "Registration_init sid cid None uuid now"
  have "keyed_by_id (m\<lparr> registrations := dict_set (registrations m) (registration_id ?r) ?r \<rparr>)"
    using assms by (simp add: keyed_by_id_def dict_set_keys dict_set_keyed)
  then show ?thesis
    using assms by (simp add: create_registration_def Let_def split: option.splits)
qed

lemma drop_registration_keyed:
  assumes "keyed_by_id m"
  shows "keyed_by_id (snd (drop_registration now sid cid m))"
proof (cases "get_registration_by_student_and_course m sid cid")
  case None
  then show ?thesis using assms by (simp add: drop_registration_def)
next
  case (Some r0)
  have same: "registration_id (snd (drop_course now r0)) = registration_id r0"
    by (simp add: drop_course_def)
  have "list_all (\<lambda>kv. registration_id (snd kv) = fst kv)
          (store_first (\<lambda>r. student_id r = sid \<and> reg_course_id r = cid)
             (snd (drop_course now r0)) (registrations m))"
    using Some assms same
    by (intro store_first_keyed [of _ _ r0])
      (simp_all add: get_registration_by_student_and_course_def dict_values_def keyed_by_id_def)
  then show ?thesis
    using Some assms by (simp add: drop_registration_def keyed_by_id_def store_first_keys)
qed

lemma update_registration_status_keyed:
  assumes "keyed_by_id m"
  shows "keyed_by_id (snd (update_registration_status rid st now m))"
proof (cases "get_registration m rid")
  case None
  then show ?thesis using assms by (simp add: update_registration_status_def)
next
  case (Some r0)
  then have "(rid, r0) \<in> set (registrations m)"
    by (simp add: get_registration_def map_of_SomeD)
  then have "registration_id r0 = rid"
    using assms by (auto simp add: keyed_by_id_def list_all_iff)
  then show ?thesis
    using Some assms
    by (simp add: update_registration_status_def keyed_by_id_def dict_set_keys dict_set_keyed)
qed

lemma registry_run_keyed:
  assumes "keyed_by_id m"
  shows "keyed_by_id (registry_run m calls)"
  using assms unfolding registry_run_def
proof (induction calls arbitrary: m)
  case Nil
  then show ?case by simp
next
  case (Cons call calls)
  have "keyed_by_id (registry_step m call)"
    using Cons.prems
    by (cases call)
      (simp_all add: create_registration_keyed drop_registration_keyed
        update_registration_status_keyed)
  then show ?case using Cons.IH by simp
qed

lemma to_remove_ids:
  "registrations_to_remove prs cutoff rs = Inr ids
    \<Longrightarrow> ids = map registration_id (filter (dropped_before prs cutoff) rs)"
proof (induction rs arbitrary: ids)
  case Nil
  then show ?case by simp
next
  case (Cons r rs)
  show ?case
  proof (cases "dropped_before prs cutoff r")
    case True
    then obtain d t where r: "status r = DROPPED" "drop_date r = Some d" "d \<noteq> []"
        "prs d = Inr t" "t < cutoff"
      by (auto simp add: dropped_before_def split: option.splits sum.splits)
    then obtain ids' where ids': "registrations_to_remove prs cutoff rs = Inr ids'"
        "ids = registration_id r # ids'"
      using Cons.prems by (auto simp add: is_dropped_def split: sum.splits)
    then show ?thesis
      using Cons.IH [of ids'] True by simp
  next
    case False
    then have "registrations_to_remove prs cutoff rs = Inr ids"
      using Cons.prems
      by (auto simp add: dropped_before_def is_dropped_def
          split: if_splits option.splits sum.splits)
    then show ?thesis
      using Cons.IH [of ids] False by simp
  qed
qed

lemma to_remove_total:
  assumes "\<forall>r \<in> set rs. status r = DROPPED \<longrightarrow>
             (\<forall>d. drop_date r = Some d \<and> d \<noteq> [] \<longrightarrow> (\<exists>t. prs d = Inr t))"
  shows "\<exists>ids. registrations_to_remove prs cutoff rs = Inr ids"
  using assms
proof (induction rs)
  case Nil
  then show ?case by simp
next
  case (Cons r rs)
  then obtain ids where "registrations_to_remove prs cutoff rs = Inr ids" by auto
  then show ?case
    using Cons.prems
    by (auto simp add: is_dropped_def split: option.splits sum.splits)
qed

lemma remove_all_present:
  assumes "distinct ks" and "set ks \<subseteq> fst ` set d"
  shows "remove_all ks d n = (Inr (n + int (length ks)), filter (\<lambda>kv. fst kv \<notin> set ks) d)"
  using assms
proof (induction ks arbitrary: d n)
  case Nil
  then show ?case by simp
next
  case (Cons k ks)
  let ?d' = "filter (\<lambda>kv. fst kv \<noteq> k) d"
  have present: "map_of d k \<noteq> None"
    using Cons.prems by (simp add: map_of_eq_None_iff)
  have sub: "set ks \<subseteq> fst ` set ?d'"
    using Cons.prems by force
  have "remove_all ks ?d' (n + 1) =
          (Inr (n + 1 + int (length ks)), filter (\<lambda>kv. fst kv \<notin> set ks) ?d')"
    using Cons.IH [OF _ sub] Cons.prems by simp
  moreover have "filter (\<lambda>kv. fst kv \<notin> set ks) ?d' = filter (\<lambda>kv. fst kv \<notin> set (k # ks)) d"
    by (induction d) auto
  ultimately show ?case
    using present by (simp add: dict_del_def)
qed

lemma selected_keys:
  assumes "distinct (map fst d)"
  shows "filter (\<lambda>kv. fst kv \<notin> set (map fst (filter P d))) d = filter (\<lambda>kv. \<not> P kv) d"
proof (rule filter_cong [OF refl])
  fix kv assume mem: "kv \<in> set d"
  have "fst kv \<in> set (map fst (filter P d)) \<longleftrightarrow> P kv"
  proof
    assume "fst kv \<in> set (map fst (filter P d))"
    then obtain kv' where kv': "kv' \<in> set d" "P kv'" "fst kv' = fst kv" by auto
    then have "kv' = kv"
      using assms mem by (metis eq_key_imp_eq_value prod.collapse)
    then show "P kv" using kv' by simp
  next
    assume "P kv"
    then show "fst kv \<in> set (map fst (filter P d))" using mem by auto
  qed
  then show "(fst kv \<notin> set (map fst (filter P d))) = (\<not> P kv)" by simp
qed

lemma cleanup_selected:
  assumes keys: "\<forall>kv \<in> set (registrations m). registration_id (snd kv) = fst kv"
    and dist: "distinct (map fst (registrations m))"
    and sel: "registrations_to_remove prs cutoff (dict_values (registrations m)) = Inr ids"
  shows "remove_all ids (registrations m) 0 =
           (Inr (int (length (filter (\<lambda>kv. dropped_before prs cutoff (snd kv)) (registrations m)))),
            filter (\<lambda>kv. \<not> dropped_before prs cutoff (snd kv)) (registrations m))"
proof -
  let ?d = "registrations m"
  let ?P = "\<lambda>kv. dropped_before prs cutoff (snd kv)"
  have "ids = map registration_id (filter (dropped_before prs cutoff) (map snd ?d))"
    using to_remove_ids [OF sel] by (simp add: dict_values_def)
  also have "\<dots> = map (\<lambda>kv. registration_id (snd kv)) (filter ?P ?d)"
    by (simp add: filter_map comp_def)
  also have "\<dots> = map fst (filter ?P ?d)"
    using keys by (intro map_cong) auto
  finally have ids: "ids = map fst (filter ?P ?d)" .
  have d1: "distinct ids"
    unfolding ids using dist by (rule distinct_map_filter)
  have d2: "set ids \<subseteq> fst ` set ?d"
    unfolding ids by auto
  have "remove_all ids ?d 0 = (Inr (0 + int (length ids)), filter (\<lambda>kv. fst kv \<notin> set ids) ?d)"
    by (rule remove_all_present [OF d1 d2])
  moreover have "filter (\<lambda>kv. fst kv \<notin> set ids) ?d = filter (\<lambda>kv. \<not> ?P kv) ?d"
    unfolding ids by (rule selected_keys [OF dist])
  moreover have "length ids = length (filter ?P ?d)"
    unfolding ids by simp
  ultimately show ?thesis by simp
qed

lemma cleanup_keeps_others:
  assumes keys: "\<forall>kv \<in> set (registrations m). registration_id (snd kv) = fst kv"
    and dist: "distinct (map fst (registrations m))"
    and mem: "kv \<in> set (registrations m)"
    and st: "status (snd kv) \<noteq> DROPPED"
  shows "kv \<in> set (registrations (snd (cleanup_old_registrations prs now days_old m)))"
proof (cases "timedelta_days days_old")
  case (Inl e)
  then show ?thesis using mem by (simp add: cleanup_old_registrations_def)
next
  case delta: (Inr delta)
  show ?thesis
  proof (cases "datetime_sub now delta")
    case (Inl e)
    then show ?thesis using mem delta by (simp add: cleanup_old_registrations_def)
  next
    case cutoff: (Inr cutoff)
    show ?thesis
    proof (cases "registrations_to_remove prs cutoff (dict_values (registrations m))")
      case (Inl e)
      then show ?thesis using mem delta cutoff by (simp add: cleanup_old_registrations_def)
    next
      case (Inr ids)
      have "\<not> dropped_before prs cutoff (snd kv)"
        using st by (simp add: dropped_before_def)
      then show ?thesis
        using mem delta cutoff Inr cleanup_selected [OF keys dist Inr]
        by (simp add: cleanup_old_registrations_def)
    qed
  qed
qed

text \<open>
  Claim C8 fails for some \<open>days_old\<close>: with \<open>days_old = 1000000000\<close> the call
  \<open>timedelta(days=days_old)\<close> raises \<open>OverflowError\<close>, so nothing is removed and no
  count is returned.
\<close>

theorem cleanup_overflow:
  "cleanup_old_registrations sample_fromisoformat 63929293200000000 1000000000
     (registry_run RegistrationManager_init
        [Create ''S1'' ''C1'' ''r1'' ''2019-09-01T08:00:00'',
         DropFor ''2020-01-01T00:00:00'' ''S1'' ''C1''])
   = (Inl OverflowError,
      registry_run RegistrationManager_init
        [Create ''S1'' ''C1'' ''r1'' ''2019-09-01T08:00:00'',
         DropFor ''2020-01-01T00:00:00'' ''S1'' ''C1''])"
  by (simp add: cleanup_old_registrations_def timedelta_days_def)

text \<open>
  Claim C8 as amended. Let the dictionary be keyed by the registrations' identifiers.
  When \<open>now - days_old\<close> days is a datetime (the magnitude of \<open>days_old\<close> is at most
  999999999 and the cut-off lies between \<open>datetime.min\<close> and \<open>datetime.max\<close>) and the
  drop date of every dropped registration parses, \<open>cleanup_old_registrations\<close> removes
  exactly the registrations dropped before the cut-off, keeps all others in their
  order, and returns the number removed. When \<open>now - days_old\<close> days is not a datetime
  the call raises \<open>OverflowError\<close> and removes nothing. In every case, also when the
  call raises, a registration whose status is not \<open>DROPPED\<close> stays in the dictionary.
\<close>

theorem cleanup_removes_old_dropped:
  assumes keyed: "keyed_by_id m"
  shows "(\<bar>days_old\<bar> \<le> 999999999
          \<and> 0 \<le> now - days_old * 86400000000
          \<and> now - days_old * 86400000000 \<le> datetime_max
          \<and> (\<forall>kv \<in> set (registrations m). status (snd kv) = DROPPED \<longrightarrow>
                (\<forall>d. drop_date (snd kv) = Some d \<and> d \<noteq> [] \<longrightarrow> (\<exists>t. prs d = Inr t)))
        \<longrightarrow> cleanup_old_registrations prs now days_old m =
             (Inr (int (length (filter
                     (\<lambda>kv. dropped_before prs (now - days_old * 86400000000) (snd kv))
                     (registrations m)))),
              m\<lparr> registrations := filter
                     (\<lambda>kv. \<not> dropped_before prs (now - days_old * 86400000000) (snd kv))
                     (registrations m) \<rparr>))
       \<and> (\<not> (\<bar>days_old\<bar> \<le> 999999999
               \<and> 0 \<le> now - days_old * 86400000000
               \<and> now - days_old * 86400000000 \<le> datetime_max)
        \<longrightarrow> cleanup_old_registrations prs now days_old m = (Inl OverflowError, m))
       \<and> (\<forall>kv \<in> set (registrations m). status (snd kv) \<noteq> DROPPED \<longrightarrow>
             kv \<in> set (registrations (snd (cleanup_old_registrations prs now days_old m))))"
proof (intro conjI impI ballI)
  have keys: "\<forall>kv \<in> set (registrations m). registration_id (snd kv) = fst kv"
    and dist: "distinct (map fst (registrations m))"
    using keyed by (simp_all add: keyed_by_id_def list_all_iff)
  assume h: "\<bar>days_old\<bar> \<le> 999999999
          \<and> 0 \<le> now - days_old * 86400000000
          \<and> now - days_old * 86400000000 \<le> datetime_max
          \<and> (\<forall>kv \<in> set (registrations m). status (snd kv) = DROPPED \<longrightarrow>
                (\<forall>d. drop_date (snd kv) = Some d \<and> d \<noteq> [] \<longrightarrow> (\<exists>t. prs d = Inr t)))"
  let ?cutoff = "now - days_old * 86400000000"
  have delta: "timedelta_days days_old = Inr (days_old * 86400000000)"
    using h by (simp add: timedelta_days_def)
  have cutoff: "datetime_sub now (days_old * 86400000000) = Inr ?cutoff"
    using h by (simp add: datetime_sub_def)
  have "\<forall>r \<in> set (dict_values (registrations m)). status r = DROPPED \<longrightarrow>
          (\<forall>d. drop_date r = Some d \<and> d \<noteq> [] \<longrightarrow> (\<exists>t. prs d = Inr t))"
    using h by (auto simp add: dict_values_def)
  then obtain ids where
    sel: "registrations_to_remove prs ?cutoff (dict_values (registrations m)) = Inr ids"
    using to_remove_total by blast
  show "cleanup_old_registrations prs now days_old m =
             (Inr (int (length (filter (\<lambda>kv. dropped_before prs ?cutoff (snd kv))
                     (registrations m)))),
              m\<lparr> registrations := filter (\<lambda>kv. \<not> dropped_before prs ?cutoff (snd kv))
                     (registrations m) \<rparr>)"
    using delta cutoff sel cleanup_selected [OF keys dist sel]
    by (simp add: cleanup_old_registrations_def)
next
  assume "\<not> (\<bar>days_old\<bar> \<le> 999999999
               \<and> 0 \<le> now - days_old * 86400000000
               \<and> now - days_old * 86400000000 \<le> datetime_max)"
  then show "cleanup_old_registrations prs now days_old m = (Inl OverflowError, m)"
    by (auto simp add: cleanup_old_registrations_def timedelta_days_def datetime_sub_def)
next
  have keys: "\<forall>kv \<in> set (registrations m). registration_id (snd kv) = fst kv"
    and dist: "distinct (map fst (registrations m))"
    using keyed by (simp_all add: keyed_by_id_def list_all_iff)
  fix kv
  assume "kv \<in> set (registrations m)" and "status (snd kv) \<noteq> DROPPED"
  then show "kv \<in> set (registrations (snd (cleanup_old_registrations prs now days_old m)))"
    by (rule cleanup_keeps_others [OF keys dist])
qed

theorem cleanup_removes_old_dropped_witness:
  "fst (cleanup_old_registrations sample_fromisoformat 63929293200000000 365
          (registry_run RegistrationManager_init
             [Create ''S1'' ''C1'' ''r1'' ''2019-09-01T08:00:00'',
              DropFor ''2020-01-01T00:00:00'' ''S1'' ''C1'',
              Create ''S2'' ''C1'' ''r2'' ''2019-09-01T08:00:00'',
              Create ''S3'' ''C1'' ''r3'' ''2026-09-01T08:00:00'',
              DropFor ''2026-10-01T12:00:00'' ''S3'' ''C1''])) = Inr 1
 \<and> map pair_status (registrations (snd
        (cleanup_old_registrations sample_fromisoformat 63929293200000000 365
          (registry_run RegistrationManager_init
             [Create ''S1'' ''C1'' ''r1'' ''2019-09-01T08:00:00'',
              DropFor ''2020-01-01T00:00:00'' ''S1'' ''C1'',
              Create ''S2'' ''C1'' ''r2'' ''2019-09-01T08:00:00'',
              Create ''S3'' ''C1'' ''r3'' ''2026-09-01T08:00:00'',
              DropFor ''2026-10-01T12:00:00'' ''S3'' ''C1'']))))
     = [(''r2'', ''S2'', ''C1'', ENROLLED), (''r3'', ''S3'', ''C1'', DROPPED)]
 \<and> fst (cleanup_old_registrations sample_fromisoformat 63929293200000000 800000
          (registry_run RegistrationManager_init
             [Create ''S1'' ''C1'' ''r1'' ''2019-09-01T08:00:00'',
              DropFor ''2020-01-01T00:00:00'' ''S1'' ''C1'',
              Create ''S2'' ''C1'' ''r2'' ''2019-09-01T08:00:00'',
              Create ''S3'' ''C1'' ''r3'' ''2026-09-01T08:00:00'',
              DropFor ''2026-10-01T12:00:00'' ''S3'' ''C1''])) = Inl OverflowError"
proof -
  let ?calls = "[Create ''S1'' ''C1'' ''r1'' ''2019-09-01T08:00:00'',
              DropFor ''2020-01-01T00:00:00'' ''S1'' ''C1'',
              Create ''S2'' ''C1'' ''r2'' ''2019-09-01T08:00:00'',
              Create ''S3'' ''C1'' ''r3'' ''2026-09-01T08:00:00'',
              DropFor ''2026-10-01T12:00:00'' ''S3'' ''C1'']"
  let ?m = "registry_run RegistrationManager_init ?calls"
  let ?r1 = "\<lparr> registration_id = ''r1'', student_id = ''S1'', reg_course_id = ''C1'',
       status = DROPPED, enrollment_date = ''2019-09-01T08:00:00'',
       drop_date = Some ''2020-01-01T00:00:00'', grade = None, reg_notes = [] \<rparr>"
  let ?r2 = "\<lparr> registration_id = ''r2'', student_id = ''S2'', reg_course_id = ''C1'',
       status = ENROLLED, enrollment_date = ''2019-09-01T08:00:00'',
       drop_date = None, grade = None, reg_notes = [] \<rparr>"
  let ?r3 = "\<lparr> registration_id = ''r3'', student_id = ''S3'', reg_course_id = ''C1'',
       status = DROPPED, enrollment_date = ''2026-09-01T08:00:00'',
       drop_date = Some ''2026-10-01T12:00:00'', grade = None, reg_notes = [] \<rparr>"
  have m: "registrations ?m = [(''r1'', ?r1), (''r2'', ?r2), (''r3'', ?r3)]"
    by (simp add: registry_eval)
  have keyed: "keyed_by_id ?m"
    by (rule registry_run_keyed [OF keyed_by_id_init])
  have pre: "\<bar>365::int\<bar> \<le> 999999999
      \<and> (0::int) \<le> 63929293200000000 - 365 * 86400000000
      \<and> (63929293200000000::int) - 365 * 86400000000 \<le> datetime_max
      \<and> (\<forall>kv \<in> set (registrations ?m). status (snd kv) = DROPPED \<longrightarrow>
            (\<forall>d. drop_date (snd kv) = Some d \<and> d \<noteq> [] \<longrightarrow>
               (\<exists>t. sample_fromisoformat d = Inr t)))"
    unfolding m by (simp add: datetime_max_def sample_fromisoformat_def)
  have "cleanup_old_registrations sample_fromisoformat 63929293200000000 365 ?m =
          (Inr (int (length (filter
                  (\<lambda>kv. dropped_before sample_fromisoformat
                           (63929293200000000 - 365 * 86400000000) (snd kv))
                  (registrations ?m)))),
           ?m\<lparr> registrations := filter
                  (\<lambda>kv. \<not> dropped_before sample_fromisoformat
                             (63929293200000000 - 365 * 86400000000) (snd kv))
                  (registrations ?m) \<rparr>)"
    using cleanup_removes_old_dropped [OF keyed, of 365 63929293200000000 sample_fromisoformat] pre
    by blast
  then have removed: "fst (cleanup_old_registrations sample_fromisoformat 63929293200000000 365 ?m)
        = Inr 1
      \<and> map pair_status (registrations (snd
          (cleanup_old_registrations sample_fromisoformat 63929293200000000 365 ?m)))
        = [(''r2'', ''S2'', ''C1'', ENROLLED), (''r3'', ''S3'', ''C1'', DROPPED)]"
    unfolding m by (simp add: dropped_before_def sample_fromisoformat_def pair_status_def)
  have far: "\<not> (\<bar>800000::int\<bar> \<le> 999999999
      \<and> (0::int) \<le> 63929293200000000 - 800000 * 86400000000
      \<and> (63929293200000000::int) - 800000 * 86400000000 \<le> datetime_max)"
    by simp
  have "cleanup_old_registrations sample_fromisoformat 63929293200000000 800000 ?m
          = (Inl OverflowError, ?m)"
    using cleanup_removes_old_dropped [OF keyed, of 800000 63929293200000000 sample_fromisoformat]
      far
    by blast
  then have "fst (cleanup_old_registrations sample_fromisoformat 63929293200000000 800000 ?m)
          = Inl OverflowError"
    by simp
  then show ?thesis
    using removed by blast
qed

end
